theory Spec2Isabelle
  imports Main
begin

section \<open>Directory objects and errors of \<open>pkg/cloud/graph.go\<close>\<close>

text \<open>
  The Go pointer fields of the SDK models (\<open>*string\<close>) are options: \<open>None\<close> is the nil
  pointer. Only the attributes that the operations of \<open>graph.go\<close> and the data model
  of the specification mention are kept.
\<close>

datatype GraphError = GraphError (code: string) (message: string)

text \<open>
  Modelled from the spec: the additional-data payload of a response, which the missing
  helper \<open>GetGraphError\<close> decodes. The specification describes it as the variant
  \<open>Clean | ServiceError(code, message) | Malformed\<close>: no nested error object, a
  well-formed nested error object, or a shape that cannot be decoded.
\<close>

datatype additionalData = Clean | ServiceError GraphError | Malformed string

datatype error =
    ErrFederatedCredentialNotFound
  | Errorf string
  | GraphErr GraphError
  | DecodeError string
  | TransportError string

record ServicePrincipal =
  sp_id :: "string option"
  sp_appId :: "string option"
  sp_displayName :: "string option"
  sp_tags :: "string list"
  sp_additionalData :: additionalData

record Application =
  app_id :: "string option"
  app_appId :: "string option"
  app_displayName :: "string option"
  app_additionalData :: additionalData

record FederatedIdentityCredential =
  fic_id :: "string option"
  fic_issuer :: "string option"
  fic_subject :: "string option"
  fic_additionalData :: additionalData

record 'a CollectionResponse =
  resp_value :: "'a list"
  resp_additionalData :: additionalData

definition NewServicePrincipal :: ServicePrincipal where
  "NewServicePrincipal =
     \<lparr>sp_id = None, sp_appId = None, sp_displayName = None, sp_tags = [],
      sp_additionalData = Clean\<rparr>"

definition NewApplication :: Application where
  "NewApplication =
     \<lparr>app_id = None, app_appId = None, app_displayName = None, app_additionalData = Clean\<rparr>"

subsection \<open>The transport\<close>

text \<open>
  \<open>c.graphServiceClient\<close> is the external collaborator. Each request builder of the SDK
  that \<open>graph.go\<close> calls is a field: it returns either the error of the call
  (\<open>Inl\<close>, any Go \<open>error\<close> value, a cancelled context included) or the decoded
  response (\<open>Inr\<close>). The three \<open>Delete\<close> builders return an \<open>error\<close> only, so
  \<open>None\<close> is Go's nil error.
\<close>

record graphServiceClient =
  ServicePrincipals_Post :: "ServicePrincipal \<Rightarrow> error + ServicePrincipal"
  Applications_Post :: "Application \<Rightarrow> error + Application"
  ServicePrincipals_Get :: "string \<Rightarrow> error + ServicePrincipal CollectionResponse"
  Applications_Get :: "string \<Rightarrow> error + Application CollectionResponse"
  ServicePrincipalsById_Delete :: "string \<Rightarrow> error option"
  ApplicationsById_Delete :: "string \<Rightarrow> error option"
  FederatedIdentityCredentials_Post ::
    "string \<Rightarrow> FederatedIdentityCredential \<Rightarrow> error + FederatedIdentityCredential"
  FederatedIdentityCredentials_Get ::
    "string \<Rightarrow> string \<Rightarrow> error + FederatedIdentityCredential CollectionResponse"
  FederatedIdentityCredentialsById_Delete :: "string \<Rightarrow> string \<Rightarrow> error option"

text \<open>
  The calls an operation makes, in the order it makes them: a request sent through the
  transport, or an application of \<open>GetGraphError\<close> to a payload. (The \<open>mlog.Debug\<close>
  lines are not recorded.)
\<close>

datatype request =
    POST_servicePrincipals ServicePrincipal
  | POST_applications Application
  | GET_servicePrincipals string
  | GET_applications string
  | DELETE_servicePrincipals string
  | DELETE_applications string
  | POST_federatedIdentityCredentials string FederatedIdentityCredential
  | GET_federatedIdentityCredentials string string
  | DELETE_federatedIdentityCredentials string string

datatype call = Transport request | Classify additionalData

type_synonym 'a traced = "call list \<times> 'a"

definition after_call :: "call \<Rightarrow> 'a traced \<Rightarrow> 'a traced" where
  "after_call ev r = (ev # fst r, snd r)"

definition calls :: "'a traced \<Rightarrow> call list" where
  "calls r = fst r"

definition result :: "'a traced \<Rightarrow> 'a" where
  "result r = snd r"

text \<open>
  A Go function either returns or panics. Only \<open>GetFederatedCredential\<close> dereferences a
  pointer of a response (\<open>*fic.GetIssuer()\<close>), so only its result has this type.
\<close>

datatype 'a outcome = Panic | Return 'a

subsection \<open>Error Classifier\<close>

text \<open>
  Modelled from the spec: \<open>GetGraphError\<close> is defined in a file of the package that is
  not part of the sources at hand. The specification gives its contract as
  \<open>Classify(additionalData) -> (ServiceError | nil, decodeError)\<close>: \<open>(nil, nil)\<close> when
  no error object is present, \<open>(err, nil)\<close> when a well-formed error object is found,
  \<open>(nil, decodeError)\<close> when the payload is malformed.
\<close>

fun GetGraphError :: "additionalData \<Rightarrow> error + GraphError option" where
  "GetGraphError Clean = Inr None"
| "GetGraphError (ServiceError e) = Inr (Some e)"
| "GetGraphError (Malformed m) = Inl (DecodeError m)"

subsection \<open>Filter Builder\<close>

abbreviation quote :: char where
  "quote \<equiv> CHR 0x27"

definition getDisplayNameFilter :: "string \<Rightarrow> string" where
  "getDisplayNameFilter displayName = ''displayName eq '' @ [quote] @ displayName @ [quote]"

definition getSubjectFilter :: "string \<Rightarrow> string" where
  "getSubjectFilter subject = ''subject eq '' @ [quote] @ subject @ [quote]"

subsection \<open>Directory Gateway\<close>

definition CreateServicePrincipal ::
  "graphServiceClient \<Rightarrow> string \<Rightarrow> string list \<Rightarrow> (error + ServicePrincipal) traced" where
  "CreateServicePrincipal c appID tags =
     (let body = NewServicePrincipal\<lparr>sp_appId := Some appID, sp_tags := tags\<rparr> in
      after_call (Transport (POST_servicePrincipals body))
        (case ServicePrincipals_Post c body of
           Inl err \<Rightarrow> ([], Inl err)
         | Inr sp \<Rightarrow>
             after_call (Classify (sp_additionalData sp))
               (case GetGraphError (sp_additionalData sp) of
                  Inl err \<Rightarrow> ([], Inl err)
                | Inr (Some graphErr) \<Rightarrow> ([], Inl (GraphErr graphErr))
                | Inr None \<Rightarrow> ([], Inr sp))))"

definition CreateApplication ::
  "graphServiceClient \<Rightarrow> string \<Rightarrow> (error + Application) traced" where
  "CreateApplication c displayName =
     (let body = NewApplication\<lparr>app_displayName := Some displayName\<rparr> in
      after_call (Transport (POST_applications body))
        (case Applications_Post c body of
           Inl err \<Rightarrow> ([], Inl err)
         | Inr app \<Rightarrow>
             after_call (Classify (app_additionalData app))
               (case GetGraphError (app_additionalData app) of
                  Inl err \<Rightarrow> ([], Inl err)
                | Inr (Some graphErr) \<Rightarrow> ([], Inl (GraphErr graphErr))
                | Inr None \<Rightarrow> ([], Inr app))))"

definition GetServicePrincipal ::
  "graphServiceClient \<Rightarrow> string \<Rightarrow> (error + ServicePrincipal) traced" where
  "GetServicePrincipal c displayName =
     (let spGetOptions = getDisplayNameFilter displayName in
      after_call (Transport (GET_servicePrincipals spGetOptions))
        (case ServicePrincipals_Get c spGetOptions of
           Inl err \<Rightarrow> ([], Inl err)
         | Inr resp \<Rightarrow>
             after_call (Classify (resp_additionalData resp))
               (case GetGraphError (resp_additionalData resp) of
                  Inl err \<Rightarrow> ([], Inl err)
                | Inr (Some graphErr) \<Rightarrow> ([], Inl (GraphErr graphErr))
                | Inr None \<Rightarrow>
                    (case resp_value resp of
                       [] \<Rightarrow>
                         ([], Inl (Errorf (''service principal '' @ displayName @ '' not found'')))
                     | sp # _ \<Rightarrow> ([], Inr sp)))))"

definition GetApplication ::
  "graphServiceClient \<Rightarrow> string \<Rightarrow> (error + Application) traced" where
  "GetApplication c displayName =
     (let appGetOptions = getDisplayNameFilter displayName in
      after_call (Transport (GET_applications appGetOptions))
        (case Applications_Get c appGetOptions of
           Inl err \<Rightarrow> ([], Inl err)
         | Inr resp \<Rightarrow>
             after_call (Classify (resp_additionalData resp))
               (case GetGraphError (resp_additionalData resp) of
                  Inl err \<Rightarrow> ([], Inl err)
                | Inr (Some graphErr) \<Rightarrow> ([], Inl (GraphErr graphErr))
                | Inr None \<Rightarrow>
                    (case resp_value resp of
                       [] \<Rightarrow>
                         ([], Inl (Errorf (''application with display name '' @ [quote]
                                @ displayName @ [quote] @ '' not found'')))
                     | app # _ \<Rightarrow> ([], Inr app)))))"

definition DeleteServicePrincipal :: "graphServiceClient \<Rightarrow> string \<Rightarrow> error option traced" where
  "DeleteServicePrincipal c objectID =
     after_call (Transport (DELETE_servicePrincipals objectID))
       ([], ServicePrincipalsById_Delete c objectID)"

definition DeleteApplication :: "graphServiceClient \<Rightarrow> string \<Rightarrow> error option traced" where
  "DeleteApplication c objectID =
     after_call (Transport (DELETE_applications objectID))
       ([], ApplicationsById_Delete c objectID)"

definition AddFederatedCredential ::
  "graphServiceClient \<Rightarrow> string \<Rightarrow> FederatedIdentityCredential \<Rightarrow> error option traced" where
  "AddFederatedCredential c objectID fic =
     after_call (Transport (POST_federatedIdentityCredentials objectID fic))
       (case FederatedIdentityCredentials_Post c objectID fic of
          Inl err \<Rightarrow> ([], Some err)
        | Inr fic' \<Rightarrow>
            after_call (Classify (fic_additionalData fic'))
              (case GetGraphError (fic_additionalData fic') of
                 Inl err \<Rightarrow> ([], Some err)
               | Inr (Some graphErr) \<Rightarrow> ([], Some (GraphErr graphErr))
               | Inr None \<Rightarrow> ([], None)))"

text \<open>
  The \<open>for ... range resp.GetValue()\<close> loop of \<open>GetFederatedCredential\<close>:
  \<open>*fic.GetIssuer()\<close> on a nil issuer is a nil-pointer dereference.
\<close>

fun scan_issuer ::
  "string \<Rightarrow> FederatedIdentityCredential list
     \<Rightarrow> (error + FederatedIdentityCredential) outcome" where
  "scan_issuer issuer [] = Return (Inl ErrFederatedCredentialNotFound)"
| "scan_issuer issuer (fic # rest) =
     (case fic_issuer fic of
        None \<Rightarrow> Panic
      | Some i \<Rightarrow> if i = issuer then Return (Inr fic) else scan_issuer issuer rest)"

definition GetFederatedCredential ::
  "graphServiceClient \<Rightarrow> string \<Rightarrow> string \<Rightarrow> string
     \<Rightarrow> (error + FederatedIdentityCredential) outcome traced" where
  "GetFederatedCredential c objectID issuer subject =
     (let ficGetOptions = getSubjectFilter subject in
      after_call (Transport (GET_federatedIdentityCredentials objectID ficGetOptions))
        (case FederatedIdentityCredentials_Get c objectID ficGetOptions of
           Inl err \<Rightarrow> ([], Return (Inl err))
         | Inr resp \<Rightarrow>
             after_call (Classify (resp_additionalData resp))
               (case GetGraphError (resp_additionalData resp) of
                  Inl err \<Rightarrow> ([], Return (Inl err))
                | Inr (Some graphErr) \<Rightarrow> ([], Return (Inl (GraphErr graphErr)))
                | Inr None \<Rightarrow> ([], scan_issuer issuer (resp_value resp)))))"

definition DeleteFederatedCredential ::
  "graphServiceClient \<Rightarrow> string \<Rightarrow> string \<Rightarrow> error option traced" where
  "DeleteFederatedCredential c objectID federatedCredentialID =
     after_call (Transport (DELETE_federatedIdentityCredentials objectID federatedCredentialID))
       ([], FederatedIdentityCredentialsById_Delete c objectID federatedCredentialID)"

subsection \<open>Calls made by an operation\<close>

text \<open>
  An operation classifies its response when the call right after the request is
  \<open>GetGraphError\<close>; it sends a single request when its list of calls has one
  \<open>Transport\<close> entry.
\<close>

fun classifies_after_transport :: "call list \<Rightarrow> bool" where
  "classifies_after_transport (Transport req # Classify ad # later) = True"
| "classifies_after_transport other = False"

subsection \<open>Filter expressions of the directory service\<close>

text \<open>
  Specification side, for comparison with the Filter Builder: the exact-match filter
  \<open>field eq 'literal'\<close> of the service's filter syntax. The string literal is delimited
  by single quotes and a single quote inside the value is written twice.
  \<open>spec_string_literal\<close> reads what follows the opening quote, up to the closing quote
  that must end the expression, and gives the value the literal denotes.
\<close>

fun spec_string_literal :: "string \<Rightarrow> string option" where
  "spec_string_literal [] = None"
| "spec_string_literal [c] = (if c = quote then Some [] else None)"
| "spec_string_literal (c # d # cs) =
     (if c = quote
      then (if d = quote then map_option ((#) quote) (spec_string_literal cs) else None)
      else map_option ((#) c) (spec_string_literal (d # cs)))"

definition spec_parse_eq_filter :: "string \<Rightarrow> string \<Rightarrow> string option" where
  "spec_parse_eq_filter field expr =
     (let opening = field @ '' eq '' @ [quote] in
      if take (length opening) expr = opening
      then spec_string_literal (drop (length opening) expr)
      else None)"

subsection \<open>Canned transports\<close>

text \<open>
  Two test doubles for \<open>c.graphServiceClient\<close>: one whose every call fails with the
  given error, and one whose every call succeeds at the transport and answers with the
  given payload and result sets.
\<close>

definition failing_client :: "error \<Rightarrow> graphServiceClient" where
  "failing_client e =
     \<lparr>ServicePrincipals_Post = (\<lambda>body. Inl e),
      Applications_Post = (\<lambda>body. Inl e),
      ServicePrincipals_Get = (\<lambda>flt. Inl e),
      Applications_Get = (\<lambda>flt. Inl e),
      ServicePrincipalsById_Delete = (\<lambda>objectID. Some e),
      ApplicationsById_Delete = (\<lambda>objectID. Some e),
      FederatedIdentityCredentials_Post = (\<lambda>objectID fic. Inl e),
      FederatedIdentityCredentials_Get = (\<lambda>objectID flt. Inl e),
      FederatedIdentityCredentialsById_Delete = (\<lambda>objectID ficID. Some e)\<rparr>"

definition replying_client ::
  "additionalData \<Rightarrow> ServicePrincipal list \<Rightarrow> Application list
     \<Rightarrow> FederatedIdentityCredential list \<Rightarrow> graphServiceClient" where
  "replying_client ad sps apps fics =
     \<lparr>ServicePrincipals_Post =
        (\<lambda>body. Inr (body\<lparr>sp_id := Some ''sp-1'', sp_additionalData := ad\<rparr>)),
      Applications_Post =
        (\<lambda>body. Inr (body\<lparr>app_id := Some ''app-1'', app_additionalData := ad\<rparr>)),
      ServicePrincipals_Get = (\<lambda>flt. Inr \<lparr>resp_value = sps, resp_additionalData = ad\<rparr>),
      Applications_Get = (\<lambda>flt. Inr \<lparr>resp_value = apps, resp_additionalData = ad\<rparr>),
      ServicePrincipalsById_Delete = (\<lambda>objectID. None),
      ApplicationsById_Delete = (\<lambda>objectID. None),
      FederatedIdentityCredentials_Post =
        (\<lambda>objectID fic. Inr (fic\<lparr>fic_id := Some ''fic-1'', fic_additionalData := ad\<rparr>)),
      FederatedIdentityCredentials_Get =
        (\<lambda>objectID flt. Inr \<lparr>resp_value = fics, resp_additionalData = ad\<rparr>),
      FederatedIdentityCredentialsById_Delete = (\<lambda>objectID ficID. None)\<rparr>"

definition credential :: "string \<Rightarrow> string option \<Rightarrow> string \<Rightarrow> FederatedIdentityCredential" where
  "credential objectID issuer subject =
     \<lparr>fic_id = Some objectID, fic_issuer = issuer, fic_subject = Some subject,
      fic_additionalData = Clean\<rparr>"

definition application :: "string \<Rightarrow> string \<Rightarrow> Application" where
  "application objectID displayName =
     \<lparr>app_id = Some objectID, app_appId = None, app_displayName = Some displayName,
      app_additionalData = Clean\<rparr>"

definition servicePrincipal :: "string \<Rightarrow> string \<Rightarrow> ServicePrincipal" where
  "servicePrincipal objectID displayName =
     \<lparr>sp_id = Some objectID, sp_appId = None, sp_displayName = Some displayName,
      sp_tags = [], sp_additionalData = Clean\<rparr>"

section \<open>Unfolding the operations\<close>

lemmas gateway_defs =
  CreateServicePrincipal_def CreateApplication_def GetServicePrincipal_def GetApplication_def
  DeleteServicePrincipal_def DeleteApplication_def AddFederatedCredential_def
  GetFederatedCredential_def DeleteFederatedCredential_def
  after_call_def calls_def result_def Let_def

section \<open>Delete operations\<close>

text \<open>
  C8. Each delete operation sends one delete request for the given object id and hands
  back exactly what the directory service reported for it: an error (for an object that
  does not exist, say) is returned as it is, and nothing is turned into a success.
\<close>

theorem delete_surfaces_service_report:
  "result (DeleteServicePrincipal c objectID) = ServicePrincipalsById_Delete c objectID
   \<and> calls (DeleteServicePrincipal c objectID) = [Transport (DELETE_servicePrincipals objectID)]
   \<and> result (DeleteApplication c objectID) = ApplicationsById_Delete c objectID
   \<and> calls (DeleteApplication c objectID) = [Transport (DELETE_applications objectID)]
   \<and> result (DeleteFederatedCredential c objectID ficID)
       = FederatedIdentityCredentialsById_Delete c objectID ficID
   \<and> calls (DeleteFederatedCredential c objectID ficID)
       = [Transport (DELETE_federatedIdentityCredentials objectID ficID)]"
  by (simp add: DeleteServicePrincipal_def DeleteApplication_def DeleteFederatedCredential_def
      after_call_def result_def calls_def)

section \<open>Transport failures\<close>

text \<open>
  C7. When the request of an operation fails at the transport (a cancelled context is
  one such failure), the operation returns that very error: it has sent the request
  once, has not classified anything, has not looked at a result set, and so cannot
  answer not-found.
\<close>

theorem transport_error_propagated:
  "(ServicePrincipals_Post c (NewServicePrincipal\<lparr>sp_appId := Some appID, sp_tags := tags\<rparr>) = Inl e
      \<longrightarrow> CreateServicePrincipal c appID tags
          = ([Transport (POST_servicePrincipals
                (NewServicePrincipal\<lparr>sp_appId := Some appID, sp_tags := tags\<rparr>))], Inl e))
   \<and> (Applications_Post c (NewApplication\<lparr>app_displayName := Some displayName\<rparr>) = Inl e
      \<longrightarrow> CreateApplication c displayName
          = ([Transport (POST_applications
                (NewApplication\<lparr>app_displayName := Some displayName\<rparr>))], Inl e))
   \<and> (ServicePrincipals_Get c (getDisplayNameFilter displayName) = Inl e
      \<longrightarrow> GetServicePrincipal c displayName
          = ([Transport (GET_servicePrincipals (getDisplayNameFilter displayName))], Inl e))
   \<and> (Applications_Get c (getDisplayNameFilter displayName) = Inl e
      \<longrightarrow> GetApplication c displayName
          = ([Transport (GET_applications (getDisplayNameFilter displayName))], Inl e))
   \<and> (ServicePrincipalsById_Delete c objectID = Some e
      \<longrightarrow> DeleteServicePrincipal c objectID
          = ([Transport (DELETE_servicePrincipals objectID)], Some e))
   \<and> (ApplicationsById_Delete c objectID = Some e
      \<longrightarrow> DeleteApplication c objectID = ([Transport (DELETE_applications objectID)], Some e))
   \<and> (FederatedIdentityCredentials_Post c objectID fic = Inl e
      \<longrightarrow> AddFederatedCredential c objectID fic
          = ([Transport (POST_federatedIdentityCredentials objectID fic)], Some e))
   \<and> (FederatedIdentityCredentials_Get c objectID (getSubjectFilter subject) = Inl e
      \<longrightarrow> GetFederatedCredential c objectID issuer subject
          = ([Transport (GET_federatedIdentityCredentials objectID (getSubjectFilter subject))],
             Return (Inl e)))
   \<and> (FederatedIdentityCredentialsById_Delete c objectID ficID = Some e
      \<longrightarrow> DeleteFederatedCredential c objectID ficID
          = ([Transport (DELETE_federatedIdentityCredentials objectID ficID)], Some e))"
  by (simp add: gateway_defs)

theorem transport_error_propagated_witness:
  "result (CreateServicePrincipal (failing_client (TransportError ''context canceled''))
      ''app'' [''tag'']) = Inl (TransportError ''context canceled'')
   \<and> result (CreateApplication (failing_client (TransportError ''context canceled'')) ''foo'')
      = Inl (TransportError ''context canceled'')
   \<and> result (GetServicePrincipal (failing_client (TransportError ''context canceled'')) ''foo'')
      = Inl (TransportError ''context canceled'')
   \<and> GetApplication (failing_client (TransportError ''context canceled'')) ''foo''
      = ([Transport (GET_applications (getDisplayNameFilter ''foo''))],
         Inl (TransportError ''context canceled''))
   \<and> result (DeleteServicePrincipal (failing_client (TransportError ''context canceled'')) ''app-1'')
      = Some (TransportError ''context canceled'')
   \<and> result (DeleteApplication (failing_client (TransportError ''context canceled'')) ''app-1'')
      = Some (TransportError ''context canceled'')
   \<and> result (AddFederatedCredential (failing_client (TransportError ''context canceled''))
        ''app-1'' (credential ''fic-1'' (Some ''iss'') ''sub''))
      = Some (TransportError ''context canceled'')
   \<and> result (GetFederatedCredential (failing_client (TransportError ''context canceled''))
        ''app-1'' ''iss'' ''sub'')
      = Return (Inl (TransportError ''context canceled''))
   \<and> result (DeleteFederatedCredential (failing_client (TransportError ''context canceled''))
        ''app-1'' ''fic-1'')
      = Some (TransportError ''context canceled'')"
proof -
  let ?e = "TransportError ''context canceled''"
  let ?c = "failing_client ?e"
  note inst = transport_error_propagated [where c = ?c and appID = "''app''" and tags = "[''tag'']"
      and e = ?e and displayName = "''foo''" and objectID = "''app-1''"
      and fic = "credential ''fic-1'' (Some ''iss'') ''sub''" and subject = "''sub''"
      and issuer = "''iss''" and ficID = "''fic-1''"]
  have down:
    "ServicePrincipals_Post ?c body = Inl ?e" "Applications_Post ?c body' = Inl ?e"
    "ServicePrincipals_Get ?c flt = Inl ?e" "Applications_Get ?c flt = Inl ?e"
    "ServicePrincipalsById_Delete ?c oid = Some ?e"
    "ApplicationsById_Delete ?c oid = Some ?e"
    "FederatedIdentityCredentials_Post ?c oid f = Inl ?e"
    "FederatedIdentityCredentials_Get ?c oid flt = Inl ?e"
    "FederatedIdentityCredentialsById_Delete ?c oid fid = Some ?e"
    for body body' flt oid f fid
    by (simp_all add: failing_client_def)
  from inst show ?thesis
    by (simp add: down result_def)
qed

section \<open>Service-level errors in the payload\<close>

text \<open>
  C2. When the transport call succeeds and the payload of the response holds a
  well-formed service-level error, each of the six operations that classify their
  response returns that error, dereferenced, and no typed object.
\<close>

theorem service_error_returned:
  "(ServicePrincipals_Post c (NewServicePrincipal\<lparr>sp_appId := Some appID, sp_tags := tags\<rparr>) = Inr sp
      \<and> sp_additionalData sp = ServiceError g
      \<longrightarrow> result (CreateServicePrincipal c appID tags) = Inl (GraphErr g))
   \<and> (Applications_Post c (NewApplication\<lparr>app_displayName := Some displayName\<rparr>) = Inr app
      \<and> app_additionalData app = ServiceError g
      \<longrightarrow> result (CreateApplication c displayName) = Inl (GraphErr g))
   \<and> (ServicePrincipals_Get c (getDisplayNameFilter displayName) = Inr sps
      \<and> resp_additionalData sps = ServiceError g
      \<longrightarrow> result (GetServicePrincipal c displayName) = Inl (GraphErr g))
   \<and> (Applications_Get c (getDisplayNameFilter displayName) = Inr apps
      \<and> resp_additionalData apps = ServiceError g
      \<longrightarrow> result (GetApplication c displayName) = Inl (GraphErr g))
   \<and> (FederatedIdentityCredentials_Post c objectID fic = Inr fic'
      \<and> fic_additionalData fic' = ServiceError g
      \<longrightarrow> result (AddFederatedCredential c objectID fic) = Some (GraphErr g))
   \<and> (FederatedIdentityCredentials_Get c objectID (getSubjectFilter subject) = Inr fics
      \<and> resp_additionalData fics = ServiceError g
      \<longrightarrow> result (GetFederatedCredential c objectID issuer subject) = Return (Inl (GraphErr g)))"
  by (simp add: gateway_defs)

theorem service_error_returned_witness:
  "result (CreateServicePrincipal
      (replying_client (ServiceError (GraphError ''Request_BadRequest'' ''invalid appId''))
         [servicePrincipal ''sp-7'' ''foo''] [application ''app-7'' ''foo'']
         [credential ''fic-7'' (Some ''iss'') ''sub''])
      ''app'' [''tag''])
     = Inl (GraphErr (GraphError ''Request_BadRequest'' ''invalid appId''))
   \<and> result (CreateApplication
      (replying_client (ServiceError (GraphError ''Request_BadRequest'' ''invalid appId''))
         [servicePrincipal ''sp-7'' ''foo''] [application ''app-7'' ''foo'']
         [credential ''fic-7'' (Some ''iss'') ''sub''])
      ''foo'')
     = Inl (GraphErr (GraphError ''Request_BadRequest'' ''invalid appId''))
   \<and> result (GetServicePrincipal
      (replying_client (ServiceError (GraphError ''Request_BadRequest'' ''invalid appId''))
         [servicePrincipal ''sp-7'' ''foo''] [application ''app-7'' ''foo'']
         [credential ''fic-7'' (Some ''iss'') ''sub''])
      ''foo'')
     = Inl (GraphErr (GraphError ''Request_BadRequest'' ''invalid appId''))
   \<and> result (GetApplication
      (replying_client (ServiceError (GraphError ''Request_BadRequest'' ''invalid appId''))
         [servicePrincipal ''sp-7'' ''foo''] [application ''app-7'' ''foo'']
         [credential ''fic-7'' (Some ''iss'') ''sub''])
      ''foo'')
     = Inl (GraphErr (GraphError ''Request_BadRequest'' ''invalid appId''))
   \<and> result (AddFederatedCredential
      (replying_client (ServiceError (GraphError ''Request_BadRequest'' ''invalid appId''))
         [servicePrincipal ''sp-7'' ''foo''] [application ''app-7'' ''foo'']
         [credential ''fic-7'' (Some ''iss'') ''sub''])
      ''app-7'' (credential ''fic-0'' (Some ''iss'') ''sub''))
     = Some (GraphErr (GraphError ''Request_BadRequest'' ''invalid appId''))
   \<and> result (GetFederatedCredential
      (replying_client (ServiceError (GraphError ''Request_BadRequest'' ''invalid appId''))
         [servicePrincipal ''sp-7'' ''foo''] [application ''app-7'' ''foo'']
         [credential ''fic-7'' (Some ''iss'') ''sub''])
      ''app-7'' ''iss'' ''sub'')
     = Return (Inl (GraphErr (GraphError ''Request_BadRequest'' ''invalid appId'')))"
proof -
  let ?g = "GraphError ''Request_BadRequest'' ''invalid appId''"
  let ?sps = "[servicePrincipal ''sp-7'' ''foo'']"
  let ?apps = "[application ''app-7'' ''foo'']"
  let ?fics = "[credential ''fic-7'' (Some ''iss'') ''sub'']"
  let ?c = "replying_client (ServiceError ?g) ?sps ?apps ?fics"
  let ?fic = "credential ''fic-0'' (Some ''iss'') ''sub''"
  note inst = service_error_returned [where c = ?c and g = ?g
      and appID = "''app''" and tags = "[''tag'']" and displayName = "''foo''"
      and objectID = "''app-7''" and fic = ?fic and subject = "''sub''" and issuer = "''iss''"
      and sp = "NewServicePrincipal\<lparr>sp_appId := Some ''app'', sp_tags := [''tag''],
                  sp_id := Some ''sp-1'', sp_additionalData := ServiceError ?g\<rparr>"
      and app = "NewApplication\<lparr>app_displayName := Some ''foo'', app_id := Some ''app-1'',
                  app_additionalData := ServiceError ?g\<rparr>"
      and sps = "\<lparr>resp_value = ?sps, resp_additionalData = ServiceError ?g\<rparr>"
      and apps = "\<lparr>resp_value = ?apps, resp_additionalData = ServiceError ?g\<rparr>"
      and fic' = "?fic\<lparr>fic_id := Some ''fic-1'', fic_additionalData := ServiceError ?g\<rparr>"
      and fics = "\<lparr>resp_value = ?fics, resp_additionalData = ServiceError ?g\<rparr>"]
  have answers:
    "ServicePrincipals_Post ?c body = Inr (body\<lparr>sp_id := Some ''sp-1'',
        sp_additionalData := ServiceError ?g\<rparr>)"
    "Applications_Post ?c body' = Inr (body'\<lparr>app_id := Some ''app-1'',
        app_additionalData := ServiceError ?g\<rparr>)"
    "ServicePrincipals_Get ?c flt = Inr \<lparr>resp_value = ?sps, resp_additionalData = ServiceError ?g\<rparr>"
    "Applications_Get ?c flt = Inr \<lparr>resp_value = ?apps, resp_additionalData = ServiceError ?g\<rparr>"
    "FederatedIdentityCredentials_Post ?c oid f = Inr (f\<lparr>fic_id := Some ''fic-1'',
        fic_additionalData := ServiceError ?g\<rparr>)"
    "FederatedIdentityCredentials_Get ?c oid flt
       = Inr \<lparr>resp_value = ?fics, resp_additionalData = ServiceError ?g\<rparr>"
    for body body' flt oid f
    by (simp_all add: replying_client_def)
  from inst show ?thesis
    by (simp add: answers)
qed

section \<open>Lookups by display name\<close>

text \<open>
  C3. A lookup by display name whose response carries no service-level error and an
  empty result set returns the not-found error of the operation, not a nil object
  with a nil error. Conversely, when the transport call succeeded and the lookup answers
  not-found, the classifier found no error in the payload and the result set was empty:
  a service-level error is never reported as not-found.
\<close>

theorem empty_lookup_not_found:
  "(ServicePrincipals_Get c (getDisplayNameFilter displayName) = Inr sps
      \<and> resp_additionalData sps = Clean \<and> resp_value sps = []
      \<longrightarrow> result (GetServicePrincipal c displayName)
          = Inl (Errorf (''service principal '' @ displayName @ '' not found'')))
   \<and> (Applications_Get c (getDisplayNameFilter displayName) = Inr apps
      \<and> resp_additionalData apps = Clean \<and> resp_value apps = []
      \<longrightarrow> result (GetApplication c displayName)
          = Inl (Errorf (''application with display name '' @ [quote] @ displayName @ [quote]
                @ '' not found'')))
   \<and> (ServicePrincipals_Get c (getDisplayNameFilter displayName) = Inr sps
      \<and> result (GetServicePrincipal c displayName)
          = Inl (Errorf (''service principal '' @ displayName @ '' not found''))
      \<longrightarrow> GetGraphError (resp_additionalData sps) = Inr None \<and> resp_value sps = [])
   \<and> (Applications_Get c (getDisplayNameFilter displayName) = Inr apps
      \<and> result (GetApplication c displayName)
          = Inl (Errorf (''application with display name '' @ [quote] @ displayName @ [quote]
                @ '' not found''))
      \<longrightarrow> GetGraphError (resp_additionalData apps) = Inr None \<and> resp_value apps = [])"
  by (cases "resp_additionalData sps"; cases "resp_additionalData apps")
    (auto simp add: gateway_defs split: list.splits)

theorem empty_lookup_not_found_witness:
  "result (GetServicePrincipal (replying_client Clean [] [] []) ''foo'')
     = Inl (Errorf ''service principal foo not found'')
   \<and> result (GetApplication (replying_client Clean [] [] []) ''foo'')
     = Inl (Errorf (''application with display name '' @ [quote] @ ''foo'' @ [quote]
          @ '' not found''))
   \<and> GetGraphError Clean = Inr None"
proof -
  let ?c = "replying_client Clean [] [] []"
  note inst = empty_lookup_not_found [where c = ?c and displayName = "''foo''"
      and sps = "\<lparr>resp_value = [], resp_additionalData = Clean\<rparr>"
      and apps = "\<lparr>resp_value = [], resp_additionalData = Clean\<rparr>"]
  have answers:
    "ServicePrincipals_Get ?c flt = Inr \<lparr>resp_value = [], resp_additionalData = Clean\<rparr>"
    "Applications_Get ?c flt = Inr \<lparr>resp_value = [], resp_additionalData = Clean\<rparr>"
    for flt
    by (simp_all add: replying_client_def)
  from inst show ?thesis
    by (simp add: answers)
qed

text \<open>
  C6. A lookup by display name whose clean response holds two or more elements returns
  the first element, in the order of the response; it does not fail on the ambiguity.
\<close>

theorem ambiguous_lookup_returns_first:
  "(ServicePrincipals_Get c (getDisplayNameFilter displayName) = Inr sps
      \<and> resp_additionalData sps = Clean \<and> resp_value sps = sp1 # sp2 # sps'
      \<longrightarrow> result (GetServicePrincipal c displayName) = Inr sp1)
   \<and> (Applications_Get c (getDisplayNameFilter displayName) = Inr apps
      \<and> resp_additionalData apps = Clean \<and> resp_value apps = app1 # app2 # apps'
      \<longrightarrow> result (GetApplication c displayName) = Inr app1)"
  by (simp add: gateway_defs)

theorem ambiguous_lookup_returns_first_witness:
  "result (GetServicePrincipal
      (replying_client Clean [servicePrincipal ''sp-1'' ''foo'', servicePrincipal ''sp-2'' ''foo'']
         [application ''app-1'' ''foo'', application ''app-2'' ''foo''] [])
      ''foo'') = Inr (servicePrincipal ''sp-1'' ''foo'')
   \<and> result (GetApplication
      (replying_client Clean [servicePrincipal ''sp-1'' ''foo'', servicePrincipal ''sp-2'' ''foo'']
         [application ''app-1'' ''foo'', application ''app-2'' ''foo''] [])
      ''foo'') = Inr (application ''app-1'' ''foo'')"
proof -
  let ?sps = "[servicePrincipal ''sp-1'' ''foo'', servicePrincipal ''sp-2'' ''foo'']"
  let ?apps = "[application ''app-1'' ''foo'', application ''app-2'' ''foo'']"
  let ?c = "replying_client Clean ?sps ?apps []"
  note inst = ambiguous_lookup_returns_first [where c = ?c and displayName = "''foo''"
      and sps = "\<lparr>resp_value = ?sps, resp_additionalData = Clean\<rparr>"
      and apps = "\<lparr>resp_value = ?apps, resp_additionalData = Clean\<rparr>"
      and ?sp1.0 = "servicePrincipal ''sp-1'' ''foo''"
      and ?sp2.0 = "servicePrincipal ''sp-2'' ''foo''" and sps' = "[]"
      and ?app1.0 = "application ''app-1'' ''foo''"
      and ?app2.0 = "application ''app-2'' ''foo''" and apps' = "[]"]
  have answers:
    "ServicePrincipals_Get ?c flt = Inr \<lparr>resp_value = ?sps, resp_additionalData = Clean\<rparr>"
    "Applications_Get ?c flt = Inr \<lparr>resp_value = ?apps, resp_additionalData = Clean\<rparr>"
    for flt
    by (simp_all add: replying_client_def)
  from inst show ?thesis
    by (simp add: answers)
qed

section \<open>Federated credentials\<close>

subsection \<open>The scan for the issuer\<close>

lemma scan_issuer_found:
  "scan_issuer issuer fics = Return (Inr fic) \<Longrightarrow> fic \<in> set fics \<and> fic_issuer fic = Some issuer"
  by (induction fics) (auto split: option.splits if_splits)

lemma scan_issuer_error:
  "scan_issuer issuer fics = Return (Inl e) \<Longrightarrow> e = ErrFederatedCredentialNotFound"
  by (induction fics) (auto split: option.splits if_splits)

lemma scan_issuer_not_found:
  "\<forall>f \<in> set fics. fic_issuer f \<noteq> None \<and> fic_issuer f \<noteq> Some issuer
     \<Longrightarrow> scan_issuer issuer fics = Return (Inl ErrFederatedCredentialNotFound)"
  by (induction fics) (auto split: option.splits)

lemma scan_issuer_panic:
  "(scan_issuer issuer fics = Panic)
     = list_ex (\<lambda>f. fic_issuer f = None) (takeWhile (\<lambda>f. fic_issuer f \<noteq> Some issuer) fics)"
  by (induction fics) (auto split: option.splits)

lemma GetFederatedCredential_clean:
  assumes "FederatedIdentityCredentials_Get c objectID (getSubjectFilter subject) = Inr resp"
    and "resp_additionalData resp = Clean"
  shows "result (GetFederatedCredential c objectID issuer subject)
           = scan_issuer issuer (resp_value resp)"
  using assms by (simp add: gateway_defs)

lemma GetFederatedCredential_returned:
  assumes "FederatedIdentityCredentials_Get c objectID (getSubjectFilter subject) = Inr resp"
    and "result (GetFederatedCredential c objectID issuer subject) = Return (Inr fic)"
  shows "scan_issuer issuer (resp_value resp) = Return (Inr fic)"
  using assms by (cases "resp_additionalData resp") (simp_all add: gateway_defs)

lemma scan_issuer_first_match:
  "scan_issuer issuer fics = Return (Inr fic)
     \<Longrightarrow> find (\<lambda>f. fic_issuer f = Some issuer) fics = Some fic"
  by (induction fics) (auto split: option.splits if_splits)

text \<open>
  C4, as amended. The lookup sends the request filtered by \<open>subject eq '<subject>'\<close> and
  compares only the issuer itself. A credential that is returned is the first element of
  the response whose issuer is the requested one; an element with another issuer is
  never returned, whatever its subject; and when the payload is clean, every issuer is
  present and no element has the requested issuer, the result is
  \<open>ErrFederatedCredentialNotFound\<close>.
\<close>

theorem federated_credential_first_issuer_match:
  assumes "FederatedIdentityCredentials_Get c objectID
      (''subject eq '' @ [quote] @ subject @ [quote]) = Inr resp"
  shows "calls (GetFederatedCredential c objectID issuer subject)
           = [Transport (GET_federatedIdentityCredentials objectID
                (''subject eq '' @ [quote] @ subject @ [quote])),
              Classify (resp_additionalData resp)]
       \<and> (result (GetFederatedCredential c objectID issuer subject) = Return (Inr fic)
            \<longrightarrow> fic \<in> set (resp_value resp) \<and> fic_issuer fic = Some issuer
                \<and> find (\<lambda>f. fic_issuer f = Some issuer) (resp_value resp) = Some fic)
       \<and> (fic_issuer fic \<noteq> Some issuer
            \<longrightarrow> result (GetFederatedCredential c objectID issuer subject) \<noteq> Return (Inr fic))
       \<and> (resp_additionalData resp = Clean
            \<and> (\<forall>f \<in> set (resp_value resp). fic_issuer f \<noteq> None)
            \<and> (\<forall>f \<in> set (resp_value resp). fic_issuer f \<noteq> Some issuer)
            \<longrightarrow> result (GetFederatedCredential c objectID issuer subject)
                = Return (Inl ErrFederatedCredentialNotFound))"
proof -
  let ?r = "result (GetFederatedCredential c objectID issuer subject)"
  from assms
  have answer: "FederatedIdentityCredentials_Get c objectID (getSubjectFilter subject) = Inr resp"
    by (simp add: getSubjectFilter_def)
  have sent: "calls (GetFederatedCredential c objectID issuer subject)
      = [Transport (GET_federatedIdentityCredentials objectID
           (''subject eq '' @ [quote] @ subject @ [quote])),
         Classify (resp_additionalData resp)]"
    using assms
    by (cases "resp_additionalData resp") (simp_all add: gateway_defs getSubjectFilter_def)
  have found: "fic \<in> set (resp_value resp) \<and> fic_issuer fic = Some issuer
      \<and> find (\<lambda>f. fic_issuer f = Some issuer) (resp_value resp) = Some fic"
    if "?r = Return (Inr fic)"
    using GetFederatedCredential_returned [OF answer that]
    by (simp add: scan_issuer_found scan_issuer_first_match)
  have missing: "?r = Return (Inl ErrFederatedCredentialNotFound)"
    if clean: "resp_additionalData resp = Clean"
      and present: "\<forall>f \<in> set (resp_value resp). fic_issuer f \<noteq> None"
      and none: "\<forall>f \<in> set (resp_value resp). fic_issuer f \<noteq> Some issuer"
  proof -
    from present none
    have "\<forall>f \<in> set (resp_value resp). fic_issuer f \<noteq> None \<and> fic_issuer f \<noteq> Some issuer"
      by blast
    then have "scan_issuer issuer (resp_value resp) = Return (Inl ErrFederatedCredentialNotFound)"
      by (rule scan_issuer_not_found)
    with GetFederatedCredential_clean [OF answer clean] show ?thesis
      by simp
  qed
  from sent found missing show ?thesis
    by blast
qed

theorem federated_credential_first_issuer_match_witness:
  "calls (GetFederatedCredential
      (replying_client Clean [] []
         [credential ''fic-1'' (Some ''iss-a'') ''sub'', credential ''fic-2'' (Some ''iss-b'') ''sub''])
      ''app-1'' ''iss-b'' ''sub'')
     = [Transport (GET_federatedIdentityCredentials ''app-1''
          (''subject eq '' @ [quote] @ ''sub'' @ [quote])),
        Classify Clean]
   \<and> result (GetFederatedCredential
      (replying_client Clean [] []
         [credential ''fic-1'' (Some ''iss-a'') ''sub'', credential ''fic-2'' (Some ''iss-b'') ''sub''])
      ''app-1'' ''iss-b'' ''sub'')
     = Return (Inr (credential ''fic-2'' (Some ''iss-b'') ''sub''))
   \<and> find (\<lambda>f. fic_issuer f = Some ''iss-b'')
        [credential ''fic-1'' (Some ''iss-a'') ''sub'', credential ''fic-2'' (Some ''iss-b'') ''sub'']
     = Some (credential ''fic-2'' (Some ''iss-b'') ''sub'')
   \<and> result (GetFederatedCredential
      (replying_client Clean [] []
         [credential ''fic-1'' (Some ''iss-a'') ''sub'', credential ''fic-2'' (Some ''iss-b'') ''sub''])
      ''app-1'' ''iss-c'' ''sub'')
     = Return (Inl ErrFederatedCredentialNotFound)"
proof -
  let ?fics = "[credential ''fic-1'' (Some ''iss-a'') ''sub'',
      credential ''fic-2'' (Some ''iss-b'') ''sub'']"
  let ?c = "replying_client Clean [] [] ?fics"
  let ?resp = "\<lparr>resp_value = ?fics, resp_additionalData = Clean\<rparr>"
  have answer: "FederatedIdentityCredentials_Get ?c ''app-1''
      (''subject eq '' @ [quote] @ ''sub'' @ [quote]) = Inr ?resp"
    by (simp add: replying_client_def)
  have answer': "FederatedIdentityCredentials_Get ?c ''app-1'' (getSubjectFilter ''sub'') = Inr ?resp"
    by (simp add: replying_client_def)
  have returned: "result (GetFederatedCredential ?c ''app-1'' ''iss-b'' ''sub'')
      = Return (Inr (credential ''fic-2'' (Some ''iss-b'') ''sub''))"
    using GetFederatedCredential_clean [OF answer', where issuer = "''iss-b''"]
    by (simp add: credential_def)
  note found = federated_credential_first_issuer_match [OF answer,
      where issuer = "''iss-b''" and fic = "credential ''fic-2'' (Some ''iss-b'') ''sub''"]
  note missing = federated_credential_first_issuer_match [OF answer,
      where issuer = "''iss-c''" and fic = "credential ''fic-2'' (Some ''iss-b'') ''sub''"]
  have clean: "resp_additionalData ?resp = Clean"
    by simp
  have present: "\<forall>f \<in> set (resp_value ?resp). fic_issuer f \<noteq> None"
    by (simp add: credential_def)
  have none: "\<forall>f \<in> set (resp_value ?resp). fic_issuer f \<noteq> Some ''iss-c''"
    by (simp add: credential_def)
  from found have "calls (GetFederatedCredential ?c ''app-1'' ''iss-b'' ''sub'')
      = [Transport (GET_federatedIdentityCredentials ''app-1''
           (''subject eq '' @ [quote] @ ''sub'' @ [quote])),
         Classify Clean]"
    by simp
  moreover from found returned
  have "find (\<lambda>f. fic_issuer f = Some ''iss-b'') ?fics
      = Some (credential ''fic-2'' (Some ''iss-b'') ''sub'')"
    by simp
  moreover from missing clean present none
  have "result (GetFederatedCredential ?c ''app-1'' ''iss-c'' ''sub'')
      = Return (Inl ErrFederatedCredentialNotFound)"
    by blast
  ultimately show ?thesis
    using returned by blast
qed

text \<open>
  C4, as stated, fails: the code never compares the subject, so when the response holds
  a credential with the requested issuer and another subject, that credential is
  returned as the match.
\<close>

theorem federated_credential_other_subject_counterexample:
  "result (GetFederatedCredential
      (replying_client Clean [] [] [credential ''fic-1'' (Some ''iss'') ''other''])
      ''app-1'' ''iss'' ''sub'')
     = Return (Inr (credential ''fic-1'' (Some ''iss'') ''other''))
   \<and> fic_subject (credential ''fic-1'' (Some ''iss'') ''other'') = Some ''other''
   \<and> fic_subject (credential ''fic-1'' (Some ''iss'') ''other'') \<noteq> Some ''sub''"
  by (simp add: gateway_defs replying_client_def credential_def)

text \<open>
  C9, as amended. The scan dereferences the issuer of each element it visits, without a
  nil check, and stops at the first element whose issuer is the requested one. After a
  successful call with a clean payload the operation panics exactly when an element
  with a nil issuer stands before any element with the requested issuer; when every
  issuer is present it never panics.
\<close>

theorem nil_issuer_panics_when_scanned:
  assumes "FederatedIdentityCredentials_Get c objectID (getSubjectFilter subject) = Inr resp"
    and "resp_additionalData resp = Clean"
  shows "((result (GetFederatedCredential c objectID issuer subject) = Panic)
            = list_ex (\<lambda>f. fic_issuer f = None)
                (takeWhile (\<lambda>f. fic_issuer f \<noteq> Some issuer) (resp_value resp)))
       \<and> ((\<forall>f \<in> set (resp_value resp). fic_issuer f \<noteq> None)
            \<longrightarrow> result (GetFederatedCredential c objectID issuer subject) \<noteq> Panic)"
proof -
  have scan: "result (GetFederatedCredential c objectID issuer subject)
      = scan_issuer issuer (resp_value resp)"
    using assms by (rule GetFederatedCredential_clean)
  have "\<not> list_ex (\<lambda>f. fic_issuer f = None)
          (takeWhile (\<lambda>f. fic_issuer f \<noteq> Some issuer) (resp_value resp))"
    if "\<forall>f \<in> set (resp_value resp). fic_issuer f \<noteq> None"
    using that by (auto simp add: list_ex_iff dest: set_takeWhileD)
  then show ?thesis
    by (simp add: scan scan_issuer_panic)
qed

theorem nil_issuer_panics_when_scanned_witness:
  "result (GetFederatedCredential
      (replying_client Clean [] []
         [credential ''fic-1'' (Some ''iss-a'') ''sub'', credential ''fic-2'' None ''sub'',
          credential ''fic-3'' (Some ''iss-b'') ''sub''])
      ''app-1'' ''iss-b'' ''sub'') = Panic
   \<and> result (GetFederatedCredential
      (replying_client Clean [] []
         [credential ''fic-1'' (Some ''iss-a'') ''sub'', credential ''fic-3'' (Some ''iss-b'') ''sub''])
      ''app-1'' ''iss-b'' ''sub'') \<noteq> Panic"
proof -
  let ?nil = "[credential ''fic-1'' (Some ''iss-a'') ''sub'', credential ''fic-2'' None ''sub'',
      credential ''fic-3'' (Some ''iss-b'') ''sub'']"
  let ?ok = "[credential ''fic-1'' (Some ''iss-a'') ''sub'',
      credential ''fic-3'' (Some ''iss-b'') ''sub'']"
  have answers:
    "FederatedIdentityCredentials_Get (replying_client Clean [] [] fics) ''app-1''
       (getSubjectFilter ''sub'') = Inr \<lparr>resp_value = fics, resp_additionalData = Clean\<rparr>"
    for fics
    by (simp add: replying_client_def)
  have clean: "resp_additionalData \<lparr>resp_value = fics, resp_additionalData = Clean\<rparr> = Clean"
    for fics :: "FederatedIdentityCredential list"
    by simp
  from nil_issuer_panics_when_scanned [OF answers clean, where fics1 = ?nil and issuer = "''iss-b''"]
  have "result (GetFederatedCredential (replying_client Clean [] [] ?nil)
      ''app-1'' ''iss-b'' ''sub'') = Panic"
    by (simp add: credential_def)
  moreover
  from nil_issuer_panics_when_scanned [OF answers clean, where fics1 = ?ok and issuer = "''iss-b''"]
  have "result (GetFederatedCredential (replying_client Clean [] [] ?ok)
      ''app-1'' ''iss-b'' ''sub'') \<noteq> Panic"
    by (simp add: credential_def)
  ultimately show ?thesis
    by blast
qed

text \<open>
  C9, as stated, fails: the answer below holds a credential with a nil issuer, yet the
  operation returns the first credential and dereferences no nil pointer, because the
  scan stops at the match that stands before it.
\<close>

theorem nil_issuer_after_match_counterexample:
  "result (GetFederatedCredential
      (replying_client Clean [] []
         [credential ''fic-1'' (Some ''iss'') ''sub'', credential ''fic-2'' None ''sub''])
      ''app-1'' ''iss'' ''sub'')
     = Return (Inr (credential ''fic-1'' (Some ''iss'') ''sub''))
   \<and> fic_issuer (credential ''fic-2'' None ''sub'') = None"
  by (simp add: gateway_defs replying_client_def credential_def)

text \<open>
  C10. A successful \<open>AddFederatedCredential\<close> returns the nil error and nothing else:
  its calls and its result are the same whatever credential object the service sent
  back, so the object id that the service assigned cannot be read from them.
\<close>

theorem add_federated_credential_discards_created_object:
  "(FederatedIdentityCredentials_Post c objectID fic = Inr created
      \<and> fic_additionalData created = Clean
      \<longrightarrow> AddFederatedCredential c objectID fic
          = ([Transport (POST_federatedIdentityCredentials objectID fic), Classify Clean], None))
   \<and> (FederatedIdentityCredentials_Post c objectID fic = Inr created
      \<and> fic_additionalData created = Clean
      \<and> FederatedIdentityCredentials_Post c' objectID fic = Inr created'
      \<and> fic_additionalData created' = Clean
      \<longrightarrow> AddFederatedCredential c objectID fic = AddFederatedCredential c' objectID fic)"
  by (simp add: gateway_defs)

theorem add_federated_credential_discards_created_object_witness:
  "FederatedIdentityCredentials_Post (replying_client Clean [] [] []) ''app-1''
      (credential ''fic-0'' (Some ''iss'') ''sub'')
     = Inr (credential ''fic-1'' (Some ''iss'') ''sub'')
   \<and> FederatedIdentityCredentials_Post
        ((replying_client Clean [] [] [])
           \<lparr>FederatedIdentityCredentials_Post :=
              (\<lambda>objectID fic. Inr (fic\<lparr>fic_id := Some ''fic-2''\<rparr>))\<rparr>)
        ''app-1'' (credential ''fic-0'' (Some ''iss'') ''sub'')
     = Inr (credential ''fic-2'' (Some ''iss'') ''sub'')
   \<and> result (AddFederatedCredential (replying_client Clean [] [] []) ''app-1''
        (credential ''fic-0'' (Some ''iss'') ''sub'')) = None
   \<and> AddFederatedCredential (replying_client Clean [] [] []) ''app-1''
        (credential ''fic-0'' (Some ''iss'') ''sub'')
     = AddFederatedCredential
        ((replying_client Clean [] [] [])
           \<lparr>FederatedIdentityCredentials_Post :=
              (\<lambda>objectID fic. Inr (fic\<lparr>fic_id := Some ''fic-2''\<rparr>))\<rparr>)
        ''app-1'' (credential ''fic-0'' (Some ''iss'') ''sub'')"
proof -
  let ?c = "replying_client Clean [] [] []"
  let ?c' = "?c\<lparr>FederatedIdentityCredentials_Post :=
      (\<lambda>objectID fic. Inr (fic\<lparr>fic_id := Some ''fic-2''\<rparr>))\<rparr>"
  let ?fic = "credential ''fic-0'' (Some ''iss'') ''sub''"
  have first: "FederatedIdentityCredentials_Post ?c ''app-1'' ?fic
      = Inr (credential ''fic-1'' (Some ''iss'') ''sub'')"
    by (simp add: replying_client_def credential_def)
  have second: "FederatedIdentityCredentials_Post ?c' ''app-1'' ?fic
      = Inr (credential ''fic-2'' (Some ''iss'') ''sub'')"
    by (simp add: credential_def)
  have clean: "fic_additionalData (credential objectID issuer subject) = Clean"
    for objectID issuer subject
    by (simp add: credential_def)
  note inst = add_federated_credential_discards_created_object [where c = ?c and c' = ?c'
      and objectID = "''app-1''" and fic = ?fic
      and created = "credential ''fic-1'' (Some ''iss'') ''sub''"
      and created' = "credential ''fic-2'' (Some ''iss'') ''sub''"]
  from inst first second clean
  have discarded: "AddFederatedCredential ?c ''app-1'' ?fic
        = ([Transport (POST_federatedIdentityCredentials ''app-1'' ?fic), Classify Clean], None)"
    and same: "AddFederatedCredential ?c ''app-1'' ?fic = AddFederatedCredential ?c' ''app-1'' ?fic"
    by blast+
  from discarded have "result (AddFederatedCredential ?c ''app-1'' ?fic) = None"
    by (simp add: result_def)
  with first second same show ?thesis
    by blast
qed

section \<open>Classification of the response\<close>

text \<open>
  C1, as amended. The six operations that receive a response object call
  \<open>GetGraphError\<close> on its payload right after the successful request, and hand out a
  typed result (or, for \<open>AddFederatedCredential\<close>, success) only when the classifier
  found no error. The three delete operations receive no response object: they send
  the request and return its error value, with no classification.
\<close>

theorem response_classified_after_transport:
  "(ServicePrincipals_Post c (NewServicePrincipal\<lparr>sp_appId := Some appID, sp_tags := tags\<rparr>) = Inr sp
      \<longrightarrow> calls (CreateServicePrincipal c appID tags)
          = [Transport (POST_servicePrincipals
               (NewServicePrincipal\<lparr>sp_appId := Some appID, sp_tags := tags\<rparr>)),
             Classify (sp_additionalData sp)]
        \<and> (result (CreateServicePrincipal c appID tags) = Inr sp'
            \<longrightarrow> GetGraphError (sp_additionalData sp) = Inr None))
   \<and> (Applications_Post c (NewApplication\<lparr>app_displayName := Some displayName\<rparr>) = Inr app
      \<longrightarrow> calls (CreateApplication c displayName)
          = [Transport (POST_applications (NewApplication\<lparr>app_displayName := Some displayName\<rparr>)),
             Classify (app_additionalData app)]
        \<and> (result (CreateApplication c displayName) = Inr app'
            \<longrightarrow> GetGraphError (app_additionalData app) = Inr None))
   \<and> (ServicePrincipals_Get c (getDisplayNameFilter displayName) = Inr sps
      \<longrightarrow> calls (GetServicePrincipal c displayName)
          = [Transport (GET_servicePrincipals (getDisplayNameFilter displayName)),
             Classify (resp_additionalData sps)]
        \<and> (result (GetServicePrincipal c displayName) = Inr sp'
            \<longrightarrow> GetGraphError (resp_additionalData sps) = Inr None))
   \<and> (Applications_Get c (getDisplayNameFilter displayName) = Inr apps
      \<longrightarrow> calls (GetApplication c displayName)
          = [Transport (GET_applications (getDisplayNameFilter displayName)),
             Classify (resp_additionalData apps)]
        \<and> (result (GetApplication c displayName) = Inr app'
            \<longrightarrow> GetGraphError (resp_additionalData apps) = Inr None))
   \<and> (FederatedIdentityCredentials_Post c objectID fic = Inr created
      \<longrightarrow> calls (AddFederatedCredential c objectID fic)
          = [Transport (POST_federatedIdentityCredentials objectID fic),
             Classify (fic_additionalData created)]
        \<and> (result (AddFederatedCredential c objectID fic) = None
            \<longrightarrow> GetGraphError (fic_additionalData created) = Inr None))
   \<and> (FederatedIdentityCredentials_Get c objectID (getSubjectFilter subject) = Inr fics
      \<longrightarrow> calls (GetFederatedCredential c objectID issuer subject)
          = [Transport (GET_federatedIdentityCredentials objectID (getSubjectFilter subject)),
             Classify (resp_additionalData fics)]
        \<and> (result (GetFederatedCredential c objectID issuer subject) = Return (Inr fic')
            \<longrightarrow> GetGraphError (resp_additionalData fics) = Inr None))
   \<and> DeleteServicePrincipal c objectID
        = ([Transport (DELETE_servicePrincipals objectID)], ServicePrincipalsById_Delete c objectID)
   \<and> DeleteApplication c objectID
        = ([Transport (DELETE_applications objectID)], ApplicationsById_Delete c objectID)
   \<and> DeleteFederatedCredential c objectID ficID
        = ([Transport (DELETE_federatedIdentityCredentials objectID ficID)],
           FederatedIdentityCredentialsById_Delete c objectID ficID)"
  by (intro conjI impI)
    (auto simp add: gateway_defs split: sum.splits option.splits list.splits)

theorem response_classified_after_transport_witness:
  "calls (CreateServicePrincipal
      (replying_client Clean [servicePrincipal ''sp-7'' ''foo''] [application ''app-7'' ''foo'']
         [credential ''fic-7'' (Some ''iss'') ''sub''])
      ''app'' [''tag''])
     = [Transport (POST_servicePrincipals
          (NewServicePrincipal\<lparr>sp_appId := Some ''app'', sp_tags := [''tag'']\<rparr>)),
        Classify Clean]
   \<and> calls (CreateApplication
      (replying_client Clean [servicePrincipal ''sp-7'' ''foo''] [application ''app-7'' ''foo'']
         [credential ''fic-7'' (Some ''iss'') ''sub''])
      ''foo'')
     = [Transport (POST_applications (NewApplication\<lparr>app_displayName := Some ''foo''\<rparr>)),
        Classify Clean]
   \<and> calls (GetServicePrincipal
      (replying_client Clean [servicePrincipal ''sp-7'' ''foo''] [application ''app-7'' ''foo'']
         [credential ''fic-7'' (Some ''iss'') ''sub''])
      ''foo'')
     = [Transport (GET_servicePrincipals (getDisplayNameFilter ''foo'')), Classify Clean]
   \<and> calls (GetApplication
      (replying_client Clean [servicePrincipal ''sp-7'' ''foo''] [application ''app-7'' ''foo'']
         [credential ''fic-7'' (Some ''iss'') ''sub''])
      ''foo'')
     = [Transport (GET_applications (getDisplayNameFilter ''foo'')), Classify Clean]
   \<and> calls (AddFederatedCredential
      (replying_client Clean [servicePrincipal ''sp-7'' ''foo''] [application ''app-7'' ''foo'']
         [credential ''fic-7'' (Some ''iss'') ''sub''])
      ''app-7'' (credential ''fic-0'' (Some ''iss'') ''sub''))
     = [Transport (POST_federatedIdentityCredentials ''app-7''
          (credential ''fic-0'' (Some ''iss'') ''sub'')),
        Classify Clean]
   \<and> calls (GetFederatedCredential
      (replying_client Clean [servicePrincipal ''sp-7'' ''foo''] [application ''app-7'' ''foo'']
         [credential ''fic-7'' (Some ''iss'') ''sub''])
      ''app-7'' ''iss'' ''sub'')
     = [Transport (GET_federatedIdentityCredentials ''app-7'' (getSubjectFilter ''sub'')),
        Classify Clean]
   \<and> DeleteFederatedCredential
      (replying_client Clean [servicePrincipal ''sp-7'' ''foo''] [application ''app-7'' ''foo'']
         [credential ''fic-7'' (Some ''iss'') ''sub''])
      ''app-7'' ''fic-7''
     = ([Transport (DELETE_federatedIdentityCredentials ''app-7'' ''fic-7'')], None)"
proof -
  let ?sps = "[servicePrincipal ''sp-7'' ''foo'']"
  let ?apps = "[application ''app-7'' ''foo'']"
  let ?fics = "[credential ''fic-7'' (Some ''iss'') ''sub'']"
  let ?c = "replying_client Clean ?sps ?apps ?fics"
  let ?fic = "credential ''fic-0'' (Some ''iss'') ''sub''"
  note inst = response_classified_after_transport [where c = ?c
      and appID = "''app''" and tags = "[''tag'']" and displayName = "''foo''"
      and objectID = "''app-7''" and fic = ?fic and subject = "''sub''" and issuer = "''iss''"
      and ficID = "''fic-7''"
      and sp = "NewServicePrincipal\<lparr>sp_appId := Some ''app'', sp_tags := [''tag''],
                  sp_id := Some ''sp-1'', sp_additionalData := Clean\<rparr>"
      and app = "NewApplication\<lparr>app_displayName := Some ''foo'', app_id := Some ''app-1'',
                  app_additionalData := Clean\<rparr>"
      and sps = "\<lparr>resp_value = ?sps, resp_additionalData = Clean\<rparr>"
      and apps = "\<lparr>resp_value = ?apps, resp_additionalData = Clean\<rparr>"
      and created = "?fic\<lparr>fic_id := Some ''fic-1'', fic_additionalData := Clean\<rparr>"
      and fics = "\<lparr>resp_value = ?fics, resp_additionalData = Clean\<rparr>"]
  have answers:
    "ServicePrincipals_Post ?c body = Inr (body\<lparr>sp_id := Some ''sp-1'',
        sp_additionalData := Clean\<rparr>)"
    "Applications_Post ?c body' = Inr (body'\<lparr>app_id := Some ''app-1'',
        app_additionalData := Clean\<rparr>)"
    "ServicePrincipals_Get ?c flt = Inr \<lparr>resp_value = ?sps, resp_additionalData = Clean\<rparr>"
    "Applications_Get ?c flt = Inr \<lparr>resp_value = ?apps, resp_additionalData = Clean\<rparr>"
    "FederatedIdentityCredentials_Post ?c oid f = Inr (f\<lparr>fic_id := Some ''fic-1'',
        fic_additionalData := Clean\<rparr>)"
    "FederatedIdentityCredentials_Get ?c oid flt
       = Inr \<lparr>resp_value = ?fics, resp_additionalData = Clean\<rparr>"
    "FederatedIdentityCredentialsById_Delete ?c oid fid = None"
    for body body' flt oid f fid
    by (simp_all add: replying_client_def)
  from inst show ?thesis
    by (simp add: answers)
qed

text \<open>
  C1, as stated, fails for the delete operations: the delete request below succeeds at
  the transport, and the operation returns without any call of the classifier.
\<close>

theorem delete_without_classification_counterexample:
  "ApplicationsById_Delete (replying_client Clean [] [] []) ''app-1'' = None
   \<and> calls (DeleteApplication (replying_client Clean [] [] []) ''app-1'')
      = [Transport (DELETE_applications ''app-1'')]
   \<and> \<not> classifies_after_transport
        (calls (DeleteApplication (replying_client Clean [] [] []) ''app-1''))
   \<and> classifies_after_transport
        (calls (CreateApplication (replying_client Clean [] [] []) ''foo''))"
  by (simp add: gateway_defs replying_client_def)

section \<open>Filter Builder and quotes\<close>

lemma spec_string_literal_quote_free:
  "quote \<notin> set v \<Longrightarrow> spec_string_literal (v @ [quote]) = Some v"
proof (induction v)
  case Nil
  then show ?case by simp
next
  case (Cons a v)
  then show ?case by (cases v) auto
qed

lemma spec_string_literal_length:
  "spec_string_literal s = Some v \<Longrightarrow> length s = Suc (length v + count_list v quote)"
proof (induction s arbitrary: v rule: spec_string_literal.induct)
  case 1
  then show ?case by simp
next
  case (2 c)
  then show ?case by (simp split: if_splits)
next
  case (3 c d cs)
  then show ?case by (auto split: if_splits)
qed

text \<open>
  The filter that the builders make denotes the given value exactly when the value
  holds no single quote.
\<close>

lemma filter_denotes_value_iff_quote_free:
  "(spec_parse_eq_filter ''displayName'' (getDisplayNameFilter v) = Some v) = (quote \<notin> set v)"
  "(spec_parse_eq_filter ''subject'' (getSubjectFilter v) = Some v) = (quote \<notin> set v)"
proof -
  have "quote \<notin> set v" if "spec_string_literal (v @ [quote]) = Some v"
  proof -
    from spec_string_literal_length [OF that] have "count_list v quote = 0"
      by simp
    then show ?thesis
      by (simp add: count_list_0_iff)
  qed
  then have "(spec_string_literal (v @ [quote]) = Some v) = (quote \<notin> set v)"
    using spec_string_literal_quote_free by blast
  then show
    "(spec_parse_eq_filter ''displayName'' (getDisplayNameFilter v) = Some v) = (quote \<notin> set v)"
    "(spec_parse_eq_filter ''subject'' (getSubjectFilter v) = Some v) = (quote \<notin> set v)"
    by (simp_all add: spec_parse_eq_filter_def getDisplayNameFilter_def getSubjectFilter_def)
qed

text \<open>
  C5, as amended. Each builder gives, for every value, the field name, \<open>eq\<close> and the
  value copied as it is between two single quotes; for a value that holds no single
  quote this is an exact-match filter of the service's syntax that denotes the value.
\<close>

theorem filter_builder_quotes_value:
  "getDisplayNameFilter v = ''displayName eq '' @ [quote] @ v @ [quote]
   \<and> getSubjectFilter v = ''subject eq '' @ [quote] @ v @ [quote]
   \<and> (quote \<notin> set v
      \<longrightarrow> spec_parse_eq_filter ''displayName'' (getDisplayNameFilter v) = Some v
        \<and> spec_parse_eq_filter ''subject'' (getSubjectFilter v) = Some v)"
  by (simp add: filter_denotes_value_iff_quote_free)
    (simp add: getDisplayNameFilter_def getSubjectFilter_def)

theorem filter_builder_quotes_value_witness:
  "quote \<notin> set ''foo bar''
   \<and> getDisplayNameFilter ''foo bar'' = ''displayName eq '' @ [quote] @ ''foo bar'' @ [quote]
   \<and> spec_parse_eq_filter ''displayName'' (getDisplayNameFilter ''foo bar'') = Some ''foo bar''
   \<and> spec_parse_eq_filter ''subject'' (getSubjectFilter ''foo bar'') = Some ''foo bar''"
proof -
  have free: "quote \<notin> set ''foo bar''"
    by simp
  from filter_builder_quotes_value [of "''foo bar''"] free show ?thesis
    by blast
qed

text \<open>
  C5, as stated, fails at the value \<open>o'brien\<close>: the builders do not escape the quote,
  so the literal ends after \<open>o\<close> and the expression is not a filter of the service's
  syntax; with the quote written twice it would be.
\<close>

theorem filter_with_quote_counterexample:
  "getDisplayNameFilter (''o'' @ [quote] @ ''brien'')
     = ''displayName eq '' @ [quote] @ ''o'' @ [quote] @ ''brien'' @ [quote]
   \<and> spec_parse_eq_filter ''displayName'' (getDisplayNameFilter (''o'' @ [quote] @ ''brien''))
     = None
   \<and> getSubjectFilter (''o'' @ [quote] @ ''brien'')
     = ''subject eq '' @ [quote] @ ''o'' @ [quote] @ ''brien'' @ [quote]
   \<and> spec_parse_eq_filter ''subject'' (getSubjectFilter (''o'' @ [quote] @ ''brien'')) = None
   \<and> spec_parse_eq_filter ''displayName''
       (''displayName eq '' @ [quote] @ ''o'' @ [quote, quote] @ ''brien'' @ [quote])
     = Some (''o'' @ [quote] @ ''brien'')"
  by (simp add: spec_parse_eq_filter_def getDisplayNameFilter_def getSubjectFilter_def)

end
